theory Spec2Isabelle
  imports Main
begin

section \<open>Identifiers\<close>

text \<open>
  A JavaScript value in an identifier position is a string (the external form the callers
  of the facade use), an identifier object of the driver (\<open>ObjectID\<close>, the native form of
  the document store, as the store assigns it on an insert), or the object that
  \<open>new ObjectID(x)\<close> yields in this file (\<open>Promise\<close>, see \<open>newObjectID\<close>). A string
  and a native identifier may carry the same text; they are different values. The strings
  of this development stand for well-formed identifier texts.
\<close>

datatype ident = Str string | ObjectID string | Promise

text \<open>\<open>x.toString()\<close> for such a value.\<close>

fun toString :: "ident \<Rightarrow> string" where
  "toString (Str s) = s"
| "toString (ObjectID h) = h"
| "toString Promise = ''[object Promise]''"

text \<open>
  \<open>new ObjectID(x)\<close> as the file has it. Line 8, \<open>import ObjectID from 'mongodb'\<close>, binds
  \<open>ObjectID\<close> to the default export of the driver module, the very value line 7 binds to
  \<open>mongodb\<close> (used as \<open>mongodb.MongoClient\<close> in line 60): the driver's connect function,
  not its identifier class. Called with \<open>new\<close> and without a callback it hands back a
  promise object, whatever \<open>x\<close> is. No native identifier is built anywhere in the facade.
\<close>

fun newObjectID :: "ident \<Rightarrow> ident" where
  "newObjectID x = Promise"

text \<open>
  JavaScript truthiness of an optional identifier field: a missing field and the empty
  string are falsy, an object is truthy.
\<close>

fun truthy :: "ident option \<Rightarrow> bool" where
  "truthy None = False"
| "truthy (Some (Str s)) = (s \<noteq> [])"
| "truthy (Some (ObjectID h)) = True"
| "truthy (Some Promise) = True"

fun isNative :: "ident \<Rightarrow> bool" where
  "isNative (ObjectID h) = True"
| "isNative (Str s) = False"
| "isNative Promise = False"

section \<open>Documents, queries and the store\<close>

text \<open>
  A document of any of the three collections: \<open>doc_id\<close> is the field \<open>_id\<close>,
  \<open>facebook_id\<close> the nested field \<open>facebook.id\<close>, \<open>attrs\<close> the free-form rest. A field
  a collection does not use is absent (\<open>None\<close>, \<open>[]\<close> for \<open>plantIds\<close>).
\<close>

record doc =
  doc_id :: "ident option"
  userId :: "ident option"
  plantIds :: "ident list"
  facebook_id :: "string option"
  attrs :: string

text \<open>The plant that \<open>getPlantById\<close> hands back: a plant with the in-memory field
  \<open>notes\<close> (\<open>plant_notes\<close>); an entry \<open>None\<close> is JavaScript's \<open>undefined\<close>.\<close>

record plantWithNotes = doc +
  plant_notes :: "doc option list"

text \<open>
  The query objects the facade builds: \<open>{_id: v}\<close>, \<open>{_id: {$in: vs}}\<close>,
  \<open>{userId: v}\<close>, \<open>{plantIds: v}\<close> (the array holds \<open>v\<close>) and
  \<open>{'facebook.id': v}\<close>; a field not mentioned is \<open>None\<close>.
\<close>

record query =
  q_id :: "ident option"
  q_id_in :: "ident option list option"
  q_userId :: "ident option"
  q_plantIds :: "ident option"
  q_facebook_id :: "string option"

definition emptyQuery :: query where
  "emptyQuery = \<lparr>q_id = None, q_id_in = None, q_userId = None, q_plantIds = None,
     q_facebook_id = None\<rparr>"

text \<open>
  A document matches a query when every mentioned field has the queried value. Values are
  compared as the store compares them: a string, a native identifier and the object of
  \<open>newObjectID\<close> are different values.
\<close>

definition matches :: "query \<Rightarrow> doc \<Rightarrow> bool" where
  "matches q d =
     ((case q_id q of None \<Rightarrow> True | Some v \<Rightarrow> doc_id d = Some v) \<and>
      (case q_id_in q of None \<Rightarrow> True | Some vs \<Rightarrow> doc_id d \<in> set vs) \<and>
      (case q_userId q of None \<Rightarrow> True | Some v \<Rightarrow> userId d = Some v) \<and>
      (case q_plantIds q of None \<Rightarrow> True | Some v \<Rightarrow> v \<in> set (plantIds d)) \<and>
      (case q_facebook_id q of None \<Rightarrow> True | Some v \<Rightarrow> facebook_id d = Some v))"

datatype error = ValidationError string | StoreError string | TypeError string

text \<open>The four primitive operations issued against a named collection.\<close>

datatype storeOp =
    Find string query
  | InsertOne string doc
  | UpdateDocs string "doc list"
  | DeleteMany string query

text \<open>
  The database behind the connection: the collections by name (\<open>''user''\<close>,
  \<open>''plant''\<close>, \<open>''note''\<close>), the operations issued so far, and the outcomes the store
  has in stock for the coming operations (\<open>Some e\<close>: the operation fails with \<open>e\<close>;
  an exhausted stock means success). A failing operation changes no collection.
\<close>

record db =
  colls :: "string \<Rightarrow> doc list"
  oplog :: "storeOp list"
  faults :: "error option list"

definition nextOutcome :: "db \<Rightarrow> error option" where
  "nextOutcome d = (case faults d of [] \<Rightarrow> None | f # fs \<Rightarrow> f)"

definition issue :: "storeOp \<Rightarrow> db \<Rightarrow> db" where
  "issue x d = d\<lparr>oplog := oplog d @ [x], faults := drop 1 (faults d)\<rparr>"

section \<open>The generic helpers\<close>

text \<open>
  Modelled from the spec: the helper \<open>read\<close> (module \<open>./read\<close>, imported by the facade
  and not among the sources). As section 4.3 of the specification words it, it returns the
  (possibly empty) ordered sequence of the matching documents, and an empty result is no
  error: the result is always an array (\<open>Some\<close>), never a falsy value (\<open>None\<close>), so the
  facade's tests \<open>if(user)\<close>, \<open>if(plant)\<close> and \<open>x || []\<close> always see a truthy value. The
  documents come back with their identifiers as stored: section 3 of the specification and
  the class comment of the facade put the conversion between the two identifier forms at
  the facade, which applies \<open>convertIdToString\<close> to what it reads. The projection and
  options arguments are always \<open>{}\<close> and are left out.
\<close>

definition read :: "db \<Rightarrow> string \<Rightarrow> query \<Rightarrow> (error + doc list option) \<times> db" where
  "read d c q =
     (case nextOutcome d of
        Some e \<Rightarrow> (Inl e, issue (Find c q) d)
      | None \<Rightarrow> (Inr (Some (filter (matches q) (colls d c))), issue (Find c q) d))"

text \<open>An identifier no document of the collection carries, for an insert without \<open>_id\<close>.\<close>

definition freshId :: "doc list \<Rightarrow> ident" where
  "freshId ds =
     ObjectID (replicate
       (Suc (foldr max (map (\<lambda>x. case doc_id x of None \<Rightarrow> 0 | Some i \<Rightarrow> length (toString i)) ds) 0))
       (CHR ''0''))"

text \<open>
  Modelled from the spec: the helper \<open>Create.createOne\<close> (module \<open>./create\<close>, not among
  the sources). It inserts one document, the store assigning a native identifier when the
  document has none, and returns the stored document with \<open>_id\<close> in external string form.
\<close>

definition createOne :: "db \<Rightarrow> string \<Rightarrow> doc \<Rightarrow> (error + doc) \<times> db" where
  "createOne d c x =
     (case nextOutcome d of
        Some e \<Rightarrow> (Inl e, issue (InsertOne c x) d)
      | None \<Rightarrow>
          (let stored = (case doc_id x of
                           None \<Rightarrow> x\<lparr>doc_id := Some (freshId (colls d c))\<rparr>
                         | Some i \<Rightarrow> x);
               d' = issue (InsertOne c x) d
           in (Inr (stored\<lparr>doc_id := map_option (\<lambda>i. Str (toString i)) (doc_id stored)\<rparr>),
               d'\<lparr>colls := (colls d')(c := colls d' c @ [stored])\<rparr>)))"

text \<open>
  Modelled from the spec: the helper \<open>update\<close> (module \<open>./update\<close>, not among the
  sources), in its batch form: every stored document whose \<open>_id\<close> is that of a document
  of the batch is replaced by that document. The batch succeeds or fails as a whole.
\<close>

definition update :: "db \<Rightarrow> string \<Rightarrow> doc list \<Rightarrow> (error + unit) \<times> db" where
  "update d c xs =
     (case nextOutcome d of
        Some e \<Rightarrow> (Inl e, issue (UpdateDocs c xs) d)
      | None \<Rightarrow>
          (let d' = issue (UpdateDocs c xs) d
           in (Inr (),
               d'\<lparr>colls := (colls d')(c :=
                    map (\<lambda>old. case find (\<lambda>u. doc_id u = doc_id old) xs of
                                  Some u \<Rightarrow> u
                                | None \<Rightarrow> old)
                        (colls d' c))\<rparr>)))"

text \<open>
  Modelled from the spec: the helper \<open>remove\<close> (module \<open>./delete\<close>, not among the
  sources). It deletes every document matching the query and reports how many it removed;
  matching none is no error.
\<close>

definition remove :: "db \<Rightarrow> string \<Rightarrow> query \<Rightarrow> (error + nat) \<times> db" where
  "remove d c q =
     (case nextOutcome d of
        Some e \<Rightarrow> (Inl e, issue (DeleteMany c q) d)
      | None \<Rightarrow>
          (let d' = issue (DeleteMany c q) d
           in (Inr (length (filter (matches q) (colls d c))),
               d'\<lparr>colls := (colls d')(c := filter (\<lambda>x. \<not> matches q x) (colls d' c))\<rparr>)))"

section \<open>The facade (class \<open>MongoDb\<close>)\<close>

text \<open>\<open>convertIdToString(obj)\<close> for an object that is there.\<close>

definition convertIdToString :: "doc \<Rightarrow> doc" where
  "convertIdToString obj =
     (if truthy (doc_id obj)
      then obj\<lparr>doc_id := map_option (\<lambda>i. Str (toString i)) (doc_id obj)\<rparr>
      else obj)"

text \<open>
  \<open>findOrCreateFacebookUser(userDetails, cb)\<close>. The callback's
  \<open>(error, user)\<close> is the sum; \<open>Inr None\<close> is a callback with an undefined user
  (\<open>user[0]\<close> of an empty array, handed through \<open>convertIdToString\<close>).
\<close>

definition findOrCreateFacebookUser :: "doc \<Rightarrow> db \<Rightarrow> (error + doc option) \<times> db" where
  "findOrCreateFacebookUser userDetails d =
     (case facebook_id userDetails of
        None \<Rightarrow> (Inl (ValidationError ''No facebook.id:''), d)
      | Some fid \<Rightarrow>
          if fid = [] then (Inl (ValidationError ''No facebook.id:''), d)
          else
            (case read d ''user'' (emptyQuery\<lparr>q_facebook_id := Some fid\<rparr>) of
               (Inl readError, d1) \<Rightarrow> (Inl readError, d1)
             | (Inr (Some us), d1) \<Rightarrow>
                 (Inr (case us of [] \<Rightarrow> None | u # rest \<Rightarrow> Some (convertIdToString u)), d1)
             | (Inr None, d1) \<Rightarrow>
                 (case createOne d1 ''user'' userDetails of
                    (Inl createOneError, d2) \<Rightarrow> (Inl createOneError, d2)
                  | (Inr createdUser, d2) \<Rightarrow> (Inr (Some (convertIdToString createdUser)), d2))))"

text \<open>\<open>createPlant(plant, cb)\<close>.\<close>

definition createPlant :: "doc \<Rightarrow> db \<Rightarrow> (error + doc) \<times> db" where
  "createPlant plant d =
     (let plant1 = (if truthy (doc_id plant)
                    then plant\<lparr>doc_id := map_option newObjectID (doc_id plant)\<rparr>
                    else plant)
      in if \<not> truthy (userId plant1)
         then (Inl (ValidationError
                 ''userId must be specified as part of plant when creating a plant''), d)
         else createOne d ''plant'' (plant1\<lparr>userId := map_option newObjectID (userId plant1)\<rparr>))"

text \<open>
  \<open>getPlantById(plantId, cb)\<close>. \<open>Inr None\<close> is the callback without arguments. For an
  empty array \<open>plant[0]\<close> is undefined and reading \<open>plant[0]._id\<close> throws. The callback
  of \<open>map\<close> over the notes returns nothing, so every entry of \<open>notes\<close> is \<open>undefined\<close>.
\<close>

definition getPlantById :: "string \<Rightarrow> db \<Rightarrow> (error + plantWithNotes option) \<times> db" where
  "getPlantById plantId d =
     (case read d ''plant'' (emptyQuery\<lparr>q_id := Some (newObjectID (Str plantId))\<rparr>) of
        (Inl readError, d1) \<Rightarrow> (Inl readError, d1)
      | (Inr None, d1) \<Rightarrow> (Inr None, d1)
      | (Inr (Some ps), d1) \<Rightarrow>
          (case ps of
             [] \<Rightarrow> (Inl (TypeError ''Cannot read property _id of undefined''), d1)
           | p # rest \<Rightarrow>
               (case read d1 ''note'' (emptyQuery\<lparr>q_plantIds := doc_id p\<rparr>) of
                  (Inl noteReadError, d2) \<Rightarrow> (Inl noteReadError, d2)
                | (Inr ns, d2) \<Rightarrow>
                    (Inr (Some (doc.extend (convertIdToString p)
                            (plantWithNotes.fields
                               (map (\<lambda>nt. None) (case ns of None \<Rightarrow> [] | Some l \<Rightarrow> l))))),
                     d2))))"

text \<open>\<open>getPlantsByUserId(userId, cb)\<close>. \<open>Inr None\<close> is the callback without arguments.\<close>

definition getPlantsByUserId :: "string \<Rightarrow> db \<Rightarrow> (error + doc list option) \<times> db" where
  "getPlantsByUserId uid d =
     (let userId1 = newObjectID (Str uid)
      in case read d ''user'' (emptyQuery\<lparr>q_id := Some userId1\<rparr>) of
           (Inl readUserError, d1) \<Rightarrow> (Inl readUserError, d1)
         | (Inr us, d1) \<Rightarrow>
             if (case us of None \<Rightarrow> False | Some l \<Rightarrow> length l = 1)
             then (case read d1 ''plant'' (emptyQuery\<lparr>q_userId := Some userId1\<rparr>) of
                     (Inl readError, d2) \<Rightarrow> (Inl readError, d2)
                   | (Inr ps, d2) \<Rightarrow>
                       (Inr (Some (map convertIdToString
                                     (case ps of None \<Rightarrow> [] | Some l \<Rightarrow> l))), d2))
             else (Inr None, d1))"

subsection \<open>\<open>deletePlant\<close>\<close>

record splitNotes =
  singlePlantNotes :: "ident option list"
  multiplePlantNotes :: "doc list"

text \<open>The \<open>reduce\<close> of \<open>getNotes\<close>.\<close>

definition split :: "doc list \<Rightarrow> splitNotes" where
  "split notesForPlant =
     foldl (\<lambda>acc nt.
              if length (plantIds nt) = 1
              then acc\<lparr>singlePlantNotes := singlePlantNotes acc @ [doc_id nt]\<rparr>
              else acc\<lparr>multiplePlantNotes := multiplePlantNotes acc @ [nt]\<rparr>)
           \<lparr>singlePlantNotes = [], multiplePlantNotes = []\<rparr>
           notesForPlant"

text \<open>
  The four tasks of the waterfall. \<open>pid\<close> and \<open>uid\<close> are the strings \<open>_id\<close> and
  \<open>userId\<close> the caller passes; they enter the queries as they are.
\<close>

definition getNotes :: "string \<Rightarrow> string \<Rightarrow> db \<Rightarrow> (error + splitNotes) \<times> db" where
  "getNotes pid uid d =
     (case read d ''note'' (emptyQuery\<lparr>q_plantIds := Some (Str pid), q_userId := Some (Str uid)\<rparr>) of
        (Inl getNotesError, d1) \<Rightarrow> (Inl getNotesError, d1)
      | (Inr notesForPlant, d1) \<Rightarrow>
          (Inr (split (case notesForPlant of None \<Rightarrow> [] | Some l \<Rightarrow> l)), d1))"

definition deleteNotes :: "splitNotes \<Rightarrow> db \<Rightarrow> (error + doc list) \<times> db" where
  "deleteNotes sn d =
     (if length (singlePlantNotes sn) > 0
      then (case remove d ''note'' (emptyQuery\<lparr>q_id_in := Some (singlePlantNotes sn)\<rparr>) of
              (Inl removeNoteErr, d1) \<Rightarrow> (Inl removeNoteErr, d1)
            | (Inr removeNoteResults, d1) \<Rightarrow> (Inr (multiplePlantNotes sn), d1))
      else (Inr (multiplePlantNotes sn), d))"

text \<open>\<open>ids !== _id\<close> against the string \<open>_id\<close>: a string with another text or an
  object.\<close>

definition updateNotes :: "string \<Rightarrow> doc list \<Rightarrow> db \<Rightarrow> (error + unit) \<times> db" where
  "updateNotes pid multi d =
     (if length multi > 0
      then update d ''note''
             (map (\<lambda>nt. nt\<lparr>plantIds := filter (\<lambda>ids. ids \<noteq> Str pid) (plantIds nt)\<rparr>) multi)
      else (Inr (), d))"

definition deletePlantDoc :: "string \<Rightarrow> string \<Rightarrow> db \<Rightarrow> (error + nat) \<times> db" where
  "deletePlantDoc pid uid d =
     remove d ''plant'' (emptyQuery\<lparr>q_id := Some (Str pid), q_userId := Some (Str uid)\<rparr>)"

text \<open>
  One link of \<open>async.waterfall\<close>: an error ends the chain and goes to the final callback,
  a result is passed to the next task.
\<close>

definition andThen ::
  "(error + 'a) \<times> db \<Rightarrow> ('a \<Rightarrow> db \<Rightarrow> (error + 'b) \<times> db) \<Rightarrow> (error + 'b) \<times> db" where
  "andThen r task = (case r of (Inl e, d) \<Rightarrow> (Inl e, d) | (Inr x, d) \<Rightarrow> task x d)"

definition deletePlant :: "string \<Rightarrow> string \<Rightarrow> db \<Rightarrow> (error + nat) \<times> db" where
  "deletePlant pid uid d =
     andThen (andThen (andThen (getNotes pid uid d) deleteNotes) (updateNotes pid))
       (\<lambda>done. deletePlantDoc pid uid)"

text \<open>\<open>deleteAllPlantsByUserId(userId, cb)\<close>.\<close>

definition deleteAllPlantsByUserId :: "string \<Rightarrow> db \<Rightarrow> (error + nat) \<times> db" where
  "deleteAllPlantsByUserId uid d = remove d ''plant'' (emptyQuery\<lparr>q_userId := Some (Str uid)\<rparr>)"

text \<open>\<open>createNote(note, cb)\<close>: \<open>userId\<close> and \<open>plantIds\<close> are stored as passed.\<close>

definition createNote :: "doc \<Rightarrow> db \<Rightarrow> (error + doc) \<times> db" where
  "createNote nt d =
     (let note1 = (if truthy (doc_id nt)
                   then nt\<lparr>doc_id := map_option newObjectID (doc_id nt)\<rparr>
                   else nt)
      in if \<not> truthy (userId note1)
         then (Inl (ValidationError
                 ''userId must be specified as part of note when creating a note''), d)
         else createOne d ''note'' note1)"

section \<open>Notions used by the statements\<close>

text \<open>A note refers to the plant \<open>pid\<close> of the user \<open>uid\<close>: the notes the cascading
  delete reaches.\<close>

definition refersTo :: "string \<Rightarrow> string \<Rightarrow> doc \<Rightarrow> bool" where
  "refersTo pid uid n = (Str pid \<in> set (plantIds n) \<and> userId n = Some (Str uid))"

text \<open>A note with the plant's identifier taken out of \<open>plantIds\<close>.\<close>

definition withoutPlant :: "string \<Rightarrow> doc \<Rightarrow> doc" where
  "withoutPlant pid nt = nt\<lparr>plantIds := filter (\<lambda>ids. ids \<noteq> Str pid) (plantIds nt)\<rparr>"

definition notesQuery :: "string \<Rightarrow> string \<Rightarrow> query" where
  "notesQuery pid uid = emptyQuery\<lparr>q_plantIds := Some (Str pid), q_userId := Some (Str uid)\<rparr>"

definition plantQuery :: "string \<Rightarrow> string \<Rightarrow> query" where
  "plantQuery pid uid = emptyQuery\<lparr>q_id := Some (Str pid), q_userId := Some (Str uid)\<rparr>"

definition userQuery :: "string \<Rightarrow> query" where
  "userQuery fid = emptyQuery\<lparr>q_facebook_id := Some fid\<rparr>"

definition ownerQuery :: "ident \<Rightarrow> query" where
  "ownerQuery u = emptyQuery\<lparr>q_userId := Some u\<rparr>"

definition idQuery :: "ident \<Rightarrow> query" where
  "idQuery i = emptyQuery\<lparr>q_id := Some i\<rparr>"

text \<open>An operation all of whose identifiers are in native form.\<close>

definition nativeValue :: "ident option \<Rightarrow> bool" where
  "nativeValue v = (case v of None \<Rightarrow> True | Some i \<Rightarrow> isNative i)"

definition nativeQuery :: "query \<Rightarrow> bool" where
  "nativeQuery q =
     (nativeValue (q_id q) \<and>
      (case q_id_in q of None \<Rightarrow> True | Some vs \<Rightarrow> list_all nativeValue vs) \<and>
      nativeValue (q_userId q) \<and> nativeValue (q_plantIds q))"

definition nativeDoc :: "doc \<Rightarrow> bool" where
  "nativeDoc x = (nativeValue (doc_id x) \<and> nativeValue (userId x) \<and> list_all isNative (plantIds x))"

fun nativeOp :: "storeOp \<Rightarrow> bool" where
  "nativeOp (Find c q) = nativeQuery q"
| "nativeOp (InsertOne c x) = nativeDoc x"
| "nativeOp (UpdateDocs c xs) = list_all nativeDoc xs"
| "nativeOp (DeleteMany c q) = nativeQuery q"

text \<open>A document with \<open>_id\<close> in external string form.\<close>

definition normalized :: "doc \<Rightarrow> doc" where
  "normalized x = x\<lparr>doc_id := map_option (\<lambda>i. Str (toString i)) (doc_id x)\<rparr>"

text \<open>The document an insert of \<open>x\<close> stores in a collection holding \<open>ds\<close>.\<close>

definition storedAs :: "doc list \<Rightarrow> doc \<Rightarrow> doc" where
  "storedAs ds x = (case doc_id x of None \<Rightarrow> x\<lparr>doc_id := Some (freshId ds)\<rparr> | Some i \<Rightarrow> x)"

section \<open>Concrete stores\<close>

definition mkUser :: "ident \<Rightarrow> string \<Rightarrow> string \<Rightarrow> doc" where
  "mkUser i fid a =
     \<lparr>doc_id = Some i, userId = None, plantIds = [], facebook_id = Some fid, attrs = a\<rparr>"

definition mkPlant :: "ident \<Rightarrow> ident \<Rightarrow> string \<Rightarrow> doc" where
  "mkPlant i u a =
     \<lparr>doc_id = Some i, userId = Some u, plantIds = [], facebook_id = None, attrs = a\<rparr>"

definition mkNote :: "ident \<Rightarrow> ident \<Rightarrow> ident list \<Rightarrow> string \<Rightarrow> doc" where
  "mkNote i u ps a =
     \<lparr>doc_id = Some i, userId = Some u, plantIds = ps, facebook_id = None, attrs = a\<rparr>"

definition mkStore :: "doc list \<Rightarrow> doc list \<Rightarrow> doc list \<Rightarrow> error option list \<Rightarrow> db" where
  "mkStore us ps ns fs =
     \<lparr>colls = (\<lambda>c. if c = ''user'' then us else if c = ''plant'' then ps
                    else if c = ''note'' then ns else []),
      oplog = [], faults = fs\<rparr>"

text \<open>The scenario of the specification: plant \<open>p1\<close> with the notes \<open>A\<close> (on \<open>p1\<close> alone)
  and \<open>B\<close> (on \<open>p1\<close> and \<open>p2\<close>); note \<open>C\<close> is on \<open>p2\<close> alone.\<close>

definition scenario :: "error option list \<Rightarrow> db" where
  "scenario fs = mkStore []
     [mkPlant (Str ''p1'') (Str ''u1'') ''rose'', mkPlant (Str ''p2'') (Str ''u1'') ''fern'']
     [mkNote (ObjectID ''a'') (Str ''u1'') [Str ''p1''] ''A'',
      mkNote (ObjectID ''b'') (Str ''u1'') [Str ''p1'', Str ''p2''] ''B'',
      mkNote (ObjectID ''c'') (Str ''u1'') [Str ''p2''] ''C'']
     fs"

text \<open>A store in which no note refers to plant \<open>p1\<close>.\<close>

definition lonelyPlant :: db where
  "lonelyPlant = mkStore []
     [mkPlant (Str ''p1'') (Str ''u1'') ''rose'']
     [mkNote (ObjectID ''c'') (Str ''u1'') [Str ''p2''] ''C'']
     []"



text \<open>A store whose identifiers are all in native form: user \<open>u1\<close> with plant \<open>p1\<close>
  and its note \<open>a\<close>, and plant \<open>p2\<close> of a user \<open>u2\<close> the store does not hold.\<close>

definition garden :: db where
  "garden = mkStore
     [mkUser (ObjectID ''u1'') ''fb7'' ''Ann'']
     [mkPlant (ObjectID ''p1'') (ObjectID ''u1'') ''rose'',
      mkPlant (ObjectID ''p2'') (ObjectID ''u2'') ''fern'']
     [mkNote (ObjectID ''a'') (ObjectID ''u1'') [ObjectID ''p1''] ''A'']
     []"

text \<open>A failure of the store, and the three notes of the scenario by name.\<close>

definition outage :: error where
  "outage = StoreError ''connection lost''"

definition noteA :: doc where "noteA = mkNote (ObjectID ''a'') (Str ''u1'') [Str ''p1''] ''A''"
definition noteB :: doc where "noteB = mkNote (ObjectID ''b'') (Str ''u1'') [Str ''p1'', Str ''p2''] ''B''"
definition noteC :: doc where "noteC = mkNote (ObjectID ''c'') (Str ''u1'') [Str ''p2''] ''C''"

text \<open>
  A plant stored with \<open>_id\<close> and \<open>userId\<close> in native form, the form the class comment
  of the facade gives for the collection \<open>plant\<close>. A note naming plant \<open>p1\<close> twice, with
  a native \<open>_id\<close> and with \<open>userId\<close> and \<open>plantIds\<close> as \<open>createNote\<close> stores them (as
  passed); the same note beside a plant whose identifiers are stored as strings.
\<close>

definition emptyStore :: db where
  "emptyStore = mkStore [] [] [] []"

definition planted :: db where
  "planted = mkStore [] [mkPlant (ObjectID ''p1'') (ObjectID ''u1'') ''rose''] [] []"

definition doubled :: db where
  "doubled = mkStore [] []
     [mkNote (ObjectID ''d'') (Str ''u1'') [Str ''p1'', Str ''p1''] ''D'']
     []"

definition doubledWithPlant :: db where
  "doubledWithPlant = mkStore []
     [mkPlant (Str ''p1'') (Str ''u1'') ''rose'']
     [mkNote (ObjectID ''d'') (Str ''u1'') [Str ''p1'', Str ''p1''] ''D'']
     []"

text \<open>A plant stored in native form and two notes on it.\<close>

definition nursery :: db where
  "nursery = mkStore []
     [mkPlant (ObjectID ''p1'') (ObjectID ''u1'') ''rose'']
     [mkNote (ObjectID ''a'') (Str ''u1'') [Str ''p1''] ''A'',
      mkNote (ObjectID ''b'') (Str ''u1'') [Str ''p1'', Str ''p2''] ''B'']
     []"

text \<open>The store after \<open>createPlant\<close> of a plant with \<open>_id\<close> and \<open>userId\<close> on an empty
  store.\<close>

definition sown :: db where
  "sown = snd (createPlant (mkPlant (Str ''p1'') (Str ''u1'') ''rose'') emptyStore)"

section \<open>Facts about the helpers\<close>

lemmas run_defs = deletePlant_def andThen_def getNotes_def deleteNotes_def updateNotes_def
  deletePlantDoc_def read_def remove_def update_def createOne_def nextOutcome_def issue_def
  split_def matches_def emptyQuery_def Let_def mkStore_def mkPlant_def mkNote_def mkUser_def

lemma issue_simps [simp]:
  "colls (issue x d) = colls d"
  "oplog (issue x d) = oplog d @ [x]"
  "faults (issue x d) = drop 1 (faults d)"
  by (simp_all add: issue_def)

lemma matches_notesQuery: "matches (notesQuery pid uid) = refersTo pid uid"
  by (rule ext) (auto simp: matches_def notesQuery_def emptyQuery_def refersTo_def)

lemma matches_plantQuery:
  "matches (plantQuery pid uid) = (\<lambda>p. doc_id p = Some (Str pid) \<and> userId p = Some (Str uid))"
  by (rule ext) (auto simp: matches_def plantQuery_def emptyQuery_def)

lemma matches_in: "matches (emptyQuery\<lparr>q_id_in := Some vs\<rparr>) = (\<lambda>n. doc_id n \<in> set vs)"
  by (rule ext) (simp add: matches_def emptyQuery_def)

lemma matches_userQuery: "matches (userQuery fid) = (\<lambda>u. facebook_id u = Some fid)"
  by (rule ext) (simp add: matches_def userQuery_def emptyQuery_def)

lemma read_ok:
  "nextOutcome d = None \<Longrightarrow>
   read d c q = (Inr (Some (filter (matches q) (colls d c))), issue (Find c q) d)"
  by (simp add: read_def)

lemma read_fail: "nextOutcome d = Some e \<Longrightarrow> read d c q = (Inl e, issue (Find c q) d)"
  by (simp add: read_def)

lemma createOne_ok:
  "nextOutcome d = None \<Longrightarrow>
   createOne d c x = (Inr (normalized (storedAs (colls d c) x)),
     (issue (InsertOne c x) d)\<lparr>colls := (colls d)(c := colls d c @ [storedAs (colls d c) x])\<rparr>)"
  by (simp add: createOne_def Let_def normalized_def storedAs_def)

lemma convertIdToString_eq: "convertIdToString x = normalized x"
proof (cases "doc_id x")
  case None
  then show ?thesis by (simp add: convertIdToString_def normalized_def)
next
  case (Some i)
  then show ?thesis by (cases i) (simp_all add: convertIdToString_def normalized_def)
qed

section \<open>The cascading delete\<close>

lemma split_eq:
  "split ns = \<lparr>singlePlantNotes = map doc_id (filter (\<lambda>n. length (plantIds n) = 1) ns),
               multiplePlantNotes = filter (\<lambda>n. length (plantIds n) \<noteq> 1) ns\<rparr>"
proof -
  have "foldl (\<lambda>acc nt.
              if length (plantIds nt) = 1
              then acc\<lparr>singlePlantNotes := singlePlantNotes acc @ [doc_id nt]\<rparr>
              else acc\<lparr>multiplePlantNotes := multiplePlantNotes acc @ [nt]\<rparr>) acc ns
     = \<lparr>singlePlantNotes =
          singlePlantNotes acc @ map doc_id (filter (\<lambda>n. length (plantIds n) = 1) ns),
        multiplePlantNotes =
          multiplePlantNotes acc @ filter (\<lambda>n. length (plantIds n) \<noteq> 1) ns\<rparr>" for acc
    by (induction ns arbitrary: acc) auto
  then show ?thesis by (simp add: split_def)
qed

lemma getNotes_Inr:
  assumes "getNotes pid uid d = (Inr sn, d1)"
  shows "sn = split (filter (refersTo pid uid) (colls d ''note'')) \<and>
         d1 = issue (Find ''note'' (notesQuery pid uid)) d"
  using assms
  by (auto simp: getNotes_def read_def notesQuery_def[symmetric] matches_notesQuery Let_def
           split: option.splits if_splits)

lemma deleteNotes_Inr:
  assumes "deleteNotes sn d = (Inr m, d1)"
  shows "m = multiplePlantNotes sn \<and>
         colls d1 = (colls d)(''note'' :=
            filter (\<lambda>x. doc_id x \<notin> set (singlePlantNotes sn)) (colls d ''note'')) \<and>
         oplog d1 = oplog d @ (if singlePlantNotes sn = [] then []
            else [DeleteMany ''note'' (emptyQuery\<lparr>q_id_in := Some (singlePlantNotes sn)\<rparr>)])"
  using assms
  by (auto simp: deleteNotes_def remove_def matches_in Let_def split: option.splits if_splits)

lemma updateNotes_Inr:
  assumes "updateNotes pid m d = (Inr u, d1)"
  shows "colls d1 = (colls d)(''note'' :=
            map (\<lambda>old. case find (\<lambda>u. doc_id u = doc_id old) (map (withoutPlant pid) m) of
                          Some u \<Rightarrow> u | None \<Rightarrow> old) (colls d ''note'')) \<and>
         oplog d1 = oplog d @ (if m = [] then []
            else [UpdateDocs ''note'' (map (withoutPlant pid) m)])"
  using assms
  by (auto simp: updateNotes_def update_def Let_def withoutPlant_def[abs_def]
           split: option.splits if_splits)

lemma deletePlantDoc_Inr:
  assumes "deletePlantDoc pid uid d = (Inr r, d1)"
  shows "colls d1 = (colls d)(''plant'' :=
            filter (\<lambda>p. \<not> (doc_id p = Some (Str pid) \<and> userId p = Some (Str uid)))
              (colls d ''plant'')) \<and>
         oplog d1 = oplog d @ [DeleteMany ''plant'' (plantQuery pid uid)] \<and>
         r = length (filter (\<lambda>p. doc_id p = Some (Str pid) \<and> userId p = Some (Str uid))
                       (colls d ''plant''))"
  using assms
  by (auto simp: deletePlantDoc_def remove_def Let_def plantQuery_def[symmetric]
           matches_plantQuery split: option.splits if_splits)

lemma deletePlant_Inr:
  assumes "fst (deletePlant pid uid d) = Inr r"
  shows "\<exists>sn d1 m d2 u d3.
           getNotes pid uid d = (Inr sn, d1) \<and> deleteNotes sn d1 = (Inr m, d2) \<and>
           updateNotes pid m d2 = (Inr u, d3) \<and>
           deletePlant pid uid d = deletePlantDoc pid uid d3"
  using assms
  by (auto simp: deletePlant_def andThen_def split: prod.splits sum.splits)

lemma find_unique:
  assumes "\<And>y. y \<in> set ns \<Longrightarrow> P (f y) \<longleftrightarrow> y = x"
  shows "find P (map f (filter Q ns)) = (if Q x \<and> x \<in> set ns then Some (f x) else None)"
  using assms by (induction ns) auto

lemma find_by_id:
  assumes "distinct (map doc_id ns)" and "x \<in> set ns" and "\<And>y. doc_id (f y) = doc_id y"
  shows "find (\<lambda>u. doc_id u = doc_id x) (map f (filter Q ns)) =
           (if Q x then Some (f x) else None)"
proof -
  have inj: "inj_on doc_id (set ns)"
    using assms(1) by (simp add: distinct_map)
  have "doc_id (f y) = doc_id x \<longleftrightarrow> y = x" if "y \<in> set ns" for y
    using inj that assms(2,3) by (auto dest: inj_onD)
  then show ?thesis
    using find_unique [of ns "\<lambda>u. doc_id u = doc_id x" f x Q] assms(2) by simp
qed

lemma id_in_filtered:
  assumes "distinct (map doc_id ns)" and "x \<in> set ns"
  shows "doc_id x \<in> set (map doc_id (filter Q ns)) \<longleftrightarrow> Q x"
  using assms by (auto simp: distinct_map dest: inj_onD)

lemma single_ref:
  "refersTo pid uid n \<and> length (plantIds n) = 1 \<longleftrightarrow>
   refersTo pid uid n \<and> plantIds n = [Str pid]"
  by (cases "plantIds n") (auto simp: refersTo_def)

lemma cascade_notes:
  assumes "distinct (map doc_id ns)"
  shows "map (\<lambda>old. case find (\<lambda>u. doc_id u = doc_id old)
                         (map (withoutPlant pid)
                            (filter (\<lambda>n. length (plantIds n) \<noteq> 1) (filter (refersTo pid uid) ns))) of
                     Some u \<Rightarrow> u | None \<Rightarrow> old)
           (filter (\<lambda>x. doc_id x \<notin> set (map doc_id
                      (filter (\<lambda>n. length (plantIds n) = 1) (filter (refersTo pid uid) ns)))) ns)
         = map (\<lambda>n. if refersTo pid uid n then withoutPlant pid n else n)
             (filter (\<lambda>n. \<not> (refersTo pid uid n \<and> plantIds n = [Str pid])) ns)"
proof -
  have gone: "(doc_id x \<notin> set (map doc_id
                  (filter (\<lambda>n. length (plantIds n) = 1) (filter (refersTo pid uid) ns))))
                \<longleftrightarrow> \<not> (refersTo pid uid x \<and> plantIds x = [Str pid])" if "x \<in> set ns" for x
    using id_in_filtered [OF assms that, of "\<lambda>n. refersTo pid uid n \<and> length (plantIds n) = 1"]
      single_ref [of pid uid x]
    by (auto simp: conj_commute)
  have upd: "(case find (\<lambda>u. doc_id u = doc_id x)
                 (map (withoutPlant pid)
                    (filter (\<lambda>n. length (plantIds n) \<noteq> 1) (filter (refersTo pid uid) ns))) of
               Some u \<Rightarrow> u | None \<Rightarrow> x)
             = (if refersTo pid uid x then withoutPlant pid x else x)"
    if "x \<in> set ns" and "\<not> (refersTo pid uid x \<and> plantIds x = [Str pid])" for x
  proof -
    have "find (\<lambda>u. doc_id u = doc_id x)
            (map (withoutPlant pid)
               (filter (\<lambda>n. refersTo pid uid n \<and> length (plantIds n) \<noteq> 1) ns))
          = (if refersTo pid uid x \<and> length (plantIds x) \<noteq> 1
             then Some (withoutPlant pid x) else None)"
      by (rule find_by_id [OF assms that(1)]) (simp add: withoutPlant_def)
    moreover have "refersTo pid uid x \<and> length (plantIds x) \<noteq> 1 \<longleftrightarrow> refersTo pid uid x"
      using that(2) single_ref [of pid uid x] by blast
    ultimately show ?thesis
      by (simp add: conj_commute)
  qed
  let ?keep = "\<lambda>n. \<not> (refersTo pid uid n \<and> plantIds n = [Str pid])"
  let ?upd = "\<lambda>old. case find (\<lambda>u. doc_id u = doc_id old)
                         (map (withoutPlant pid)
                            (filter (\<lambda>n. length (plantIds n) \<noteq> 1) (filter (refersTo pid uid) ns))) of
                     Some u \<Rightarrow> u | None \<Rightarrow> old"
  have "filter (\<lambda>x. doc_id x \<notin> set (map doc_id
                  (filter (\<lambda>n. length (plantIds n) = 1) (filter (refersTo pid uid) ns)))) ns
        = filter ?keep ns"
    by (rule filter_cong [OF refl]) (use gone in blast)
  moreover have "map ?upd (filter ?keep ns)
        = map (\<lambda>n. if refersTo pid uid n then withoutPlant pid n else n) (filter ?keep ns)"
  proof (rule map_cong [OF refl])
    fix x assume "x \<in> set (filter ?keep ns)"
    then have "x \<in> set ns" and "?keep x" by simp_all
    then show "?upd x = (if refersTo pid uid x then withoutPlant pid x else x)"
      by (rule upd)
  qed
  ultimately show ?thesis
    by (simp only:)
qed

text \<open>
  The cascade, with identifiers compared as the facade puts them into its queries, that is
  in the caller's string form. Let \<open>deletePlant(pid, uid)\<close> succeed on a store whose
  notes have pairwise different \<open>_id\<close>. Then the notes that referred to the plant alone
  (\<open>plantIds = [pid]\<close>, owner \<open>uid\<close>) are gone, every other note that referred to it is
  still there with the plant's identifier taken out of \<open>plantIds\<close>, all other notes are as
  they were, no plant with this \<open>_id\<close> and owner in string form is left, and the users are
  untouched. When no note refers to the plant, the notes are unchanged and the only
  operations issued are the read of the notes and the deletion of the plant.
\<close>

theorem deletePlant_cascade:
  assumes ok: "fst (deletePlant pid uid d) = Inr r"
    and ids: "distinct (map doc_id (colls d ''note''))"
  shows "colls (snd (deletePlant pid uid d)) ''note'' =
           map (\<lambda>n. if refersTo pid uid n then withoutPlant pid n else n)
             (filter (\<lambda>n. \<not> (refersTo pid uid n \<and> plantIds n = [Str pid])) (colls d ''note''))
       \<and> colls (snd (deletePlant pid uid d)) ''plant'' =
           filter (\<lambda>p. \<not> (doc_id p = Some (Str pid) \<and> userId p = Some (Str uid)))
             (colls d ''plant'')
       \<and> colls (snd (deletePlant pid uid d)) ''user'' = colls d ''user''
       \<and> (filter (refersTo pid uid) (colls d ''note'') = [] \<longrightarrow>
            colls (snd (deletePlant pid uid d)) ''note'' = colls d ''note'' \<and>
            oplog (snd (deletePlant pid uid d)) =
              oplog d @ [Find ''note'' (notesQuery pid uid),
                         DeleteMany ''plant'' (plantQuery pid uid)])"
proof -
  let ?ns = "colls d ''note''"
  let ?M = "filter (refersTo pid uid) ?ns"
  from deletePlant_Inr [OF ok] obtain sn d1 m d2 u d3 where
    g: "getNotes pid uid d = (Inr sn, d1)" and
    dn: "deleteNotes sn d1 = (Inr m, d2)" and
    un: "updateNotes pid m d2 = (Inr u, d3)" and
    dp: "deletePlant pid uid d = deletePlantDoc pid uid d3"
    by blast
  from ok dp obtain d4 where dp': "deletePlantDoc pid uid d3 = (Inr r, d4)"
    by (cases "deletePlantDoc pid uid d3") simp
  note G = getNotes_Inr [OF g]
  note D = deleteNotes_Inr [OF dn]
  note U = updateNotes_Inr [OF un]
  note P = deletePlantDoc_Inr [OF dp']
  have sn: "singlePlantNotes sn = map doc_id (filter (\<lambda>n. length (plantIds n) = 1) ?M)"
    and mn: "m = filter (\<lambda>n. length (plantIds n) \<noteq> 1) ?M"
    using G D by (simp_all add: split_eq)
  have notes3: "colls d3 ''note'' =
      map (\<lambda>old. case find (\<lambda>u. doc_id u = doc_id old) (map (withoutPlant pid) m) of
                          Some u \<Rightarrow> u | None \<Rightarrow> old)
        (filter (\<lambda>x. doc_id x \<notin> set (singlePlantNotes sn)) ?ns)"
    using G D U by simp
  have notes4: "colls d4 ''note'' =
      map (\<lambda>n. if refersTo pid uid n then withoutPlant pid n else n)
        (filter (\<lambda>n. \<not> (refersTo pid uid n \<and> plantIds n = [Str pid])) ?ns)"
    using P notes3 cascade_notes [OF ids, of pid uid] by (simp add: sn mn)
  have plants4: "colls d4 ''plant'' =
      filter (\<lambda>p. \<not> (doc_id p = Some (Str pid) \<and> userId p = Some (Str uid))) (colls d ''plant'')"
    using G D U P by simp
  have users4: "colls d4 ''user'' = colls d ''user''"
    using G D U P by simp
  have none: "colls d4 ''note'' = ?ns \<and>
      oplog d4 = oplog d @ [Find ''note'' (notesQuery pid uid),
                            DeleteMany ''plant'' (plantQuery pid uid)]"
    if "?M = []"
  proof -
    have "singlePlantNotes sn = []" "m = []" using sn mn that by simp_all
    then show ?thesis using G D U P by simp
  qed
  show ?thesis
    using notes4 plants4 users4 none by (simp add: dp dp')
qed

theorem deletePlant_cascade_witness:
  "fst (deletePlant ''p1'' ''u1'' (scenario [])) = Inr 1 \<and>
   distinct (map doc_id (colls (scenario []) ''note'')) \<and>
   colls (snd (deletePlant ''p1'' ''u1'' (scenario []))) ''note'' =
     [mkNote (ObjectID ''b'') (Str ''u1'') [Str ''p2''] ''B'',
      mkNote (ObjectID ''c'') (Str ''u1'') [Str ''p2''] ''C''] \<and>
   colls (snd (deletePlant ''p1'' ''u1'' (scenario []))) ''plant'' =
     [mkPlant (Str ''p2'') (Str ''u1'') ''fern''] \<and>
   fst (deletePlant ''p1'' ''u1'' lonelyPlant) = Inr 1 \<and>
   filter (refersTo ''p1'' ''u1'') (colls lonelyPlant ''note'') = [] \<and>
   colls (snd (deletePlant ''p1'' ''u1'' lonelyPlant)) ''note'' = colls lonelyPlant ''note'' \<and>
   colls (snd (deletePlant ''p1'' ''u1'' lonelyPlant)) ''plant'' = [] \<and>
   oplog (snd (deletePlant ''p1'' ''u1'' lonelyPlant)) =
     [Find ''note'' (notesQuery ''p1'' ''u1''), DeleteMany ''plant'' (plantQuery ''p1'' ''u1'')]"
proof -
  have ok: "fst (deletePlant ''p1'' ''u1'' (scenario [])) = Inr 1"
    by (simp add: scenario_def run_defs)
  have ids: "distinct (map doc_id (colls (scenario []) ''note''))"
    by (simp add: scenario_def mkStore_def mkNote_def)
  have ok': "fst (deletePlant ''p1'' ''u1'' lonelyPlant) = Inr 1"
    by (simp add: lonelyPlant_def run_defs)
  have ids': "distinct (map doc_id (colls lonelyPlant ''note''))"
    by (simp add: lonelyPlant_def mkStore_def mkNote_def)
  have none: "filter (refersTo ''p1'' ''u1'') (colls lonelyPlant ''note'') = []"
    by (simp add: lonelyPlant_def mkStore_def mkNote_def refersTo_def)
  have a: "colls (snd (deletePlant ''p1'' ''u1'' (scenario []))) ''note'' =
     [mkNote (ObjectID ''b'') (Str ''u1'') [Str ''p2''] ''B'',
      mkNote (ObjectID ''c'') (Str ''u1'') [Str ''p2''] ''C''] \<and>
   colls (snd (deletePlant ''p1'' ''u1'' (scenario []))) ''plant'' =
     [mkPlant (Str ''p2'') (Str ''u1'') ''fern'']"
    using deletePlant_cascade [OF ok ids]
    by (simp add: scenario_def mkStore_def mkNote_def mkPlant_def refersTo_def withoutPlant_def)
  have b: "colls (snd (deletePlant ''p1'' ''u1'' lonelyPlant)) ''note'' = colls lonelyPlant ''note'' \<and>
   colls (snd (deletePlant ''p1'' ''u1'' lonelyPlant)) ''plant'' = [] \<and>
   oplog (snd (deletePlant ''p1'' ''u1'' lonelyPlant)) =
     [Find ''note'' (notesQuery ''p1'' ''u1''), DeleteMany ''plant'' (plantQuery ''p1'' ''u1'')]"
    using deletePlant_cascade [OF ok' ids']
    by (simp add: lonelyPlant_def mkStore_def mkNote_def mkPlant_def refersTo_def)
  show ?thesis
    using ok ids ok' none a b by simp
qed

section \<open>Find or create a user\<close>

lemma findOrCreate_invalid:
  "facebook_id prof = None \<or> facebook_id prof = Some [] \<Longrightarrow>
   findOrCreateFacebookUser prof d = (Inl (ValidationError ''No facebook.id:''), d)"
  by (auto simp: findOrCreateFacebookUser_def)

lemma findOrCreate_read:
  assumes "facebook_id prof = Some fid" "fid \<noteq> []" "nextOutcome d = None"
  shows "findOrCreateFacebookUser prof d =
           (Inr (case filter (\<lambda>x. facebook_id x = Some fid) (colls d ''user'') of
                   [] \<Rightarrow> None | u # rest \<Rightarrow> Some (normalized u)),
            issue (Find ''user'' (userQuery fid)) d)"
proof -
  have "read d ''user'' (userQuery fid) =
          (Inr (Some (filter (\<lambda>x. facebook_id x = Some fid) (colls d ''user''))),
           issue (Find ''user'' (userQuery fid)) d)"
    using assms by (simp add: read_ok matches_userQuery)
  then show ?thesis
    using assms(1,2)
    by (simp add: findOrCreateFacebookUser_def userQuery_def [symmetric]
        convertIdToString_eq split: list.splits)
qed

lemma findOrCreate_never_inserts:
  "colls (snd (findOrCreateFacebookUser prof d)) = colls d"
proof (cases "facebook_id prof = None \<or> facebook_id prof = Some []")
  case True
  then show ?thesis by (simp add: findOrCreate_invalid)
next
  case False
  then obtain fid where fid: "facebook_id prof = Some fid" "fid \<noteq> []"
    by (cases "facebook_id prof") auto
  show ?thesis
  proof (cases "nextOutcome d")
    case None
    then show ?thesis by (simp add: findOrCreate_read [OF fid])
  next
    case (Some e)
    then show ?thesis
      using fid by (simp add: findOrCreateFacebookUser_def read_fail)
  qed
qed

section \<open>Plants\<close>

text \<open>
  C8. \<open>createPlant\<close> for a plant document without \<open>userId\<close> fails with the validation
  error and hands the database back as it was: no collection is written and no storage
  operation is issued.
\<close>

theorem createPlant_without_userId:
  "createPlant (plant\<lparr>userId := None\<rparr>) d =
     (Inl (ValidationError
        ''userId must be specified as part of plant when creating a plant''), d)"
  by (simp add: createPlant_def Let_def)

lemma matches_idQuery: "matches (idQuery i) = (\<lambda>x. doc_id x = Some i)"
  by (rule ext) (simp add: matches_def idQuery_def emptyQuery_def)

lemma matches_ownerQuery: "matches (ownerQuery u) = (\<lambda>x. userId x = Some u)"
  by (rule ext) (simp add: matches_def ownerQuery_def emptyQuery_def)

text \<open>
  \<open>deleteAllPlantsByUserId\<close> touches the collection \<open>plant\<close> only: \<open>note\<close> and \<open>user\<close>
  are as they were, whether the store serves the deletion or not.
\<close>

lemma deleteAllPlantsByUserId_frame:
  "colls (snd (deleteAllPlantsByUserId uid d)) ''note'' = colls d ''note'' \<and>
   colls (snd (deleteAllPlantsByUserId uid d)) ''user'' = colls d ''user'' \<and>
   oplog (snd (deleteAllPlantsByUserId uid d)) =
     oplog d @ [DeleteMany ''plant'' (ownerQuery (Str uid))]"
  by (cases "nextOutcome d")
     (simp_all add: deleteAllPlantsByUserId_def remove_def Let_def ownerQuery_def [symmetric])

section \<open>Failure of a stage of the cascading delete\<close>

lemma getNotes_Inl:
  assumes "getNotes pid uid d = (Inl e, d1)"
  shows "nextOutcome d = Some e \<and> d1 = issue (Find ''note'' (notesQuery pid uid)) d"
  using assms
  by (auto simp: getNotes_def read_def notesQuery_def [symmetric] Let_def split: option.splits)

lemma deleteNotes_Inl:
  assumes "deleteNotes sn d = (Inl e, d1)"
  shows "nextOutcome d = Some e \<and>
         d1 = issue (DeleteMany ''note'' (emptyQuery\<lparr>q_id_in := Some (singlePlantNotes sn)\<rparr>)) d"
  using assms
  by (auto simp: deleteNotes_def remove_def Let_def split: option.splits if_splits)

lemma updateNotes_Inl:
  assumes "updateNotes pid m d = (Inl e, d1)"
  shows "nextOutcome d = Some e \<and>
         d1 = issue (UpdateDocs ''note'' (map (withoutPlant pid) m)) d"
  using assms
  by (auto simp: updateNotes_def update_def Let_def withoutPlant_def [abs_def]
           split: option.splits if_splits)

lemma deletePlantDoc_Inl:
  assumes "deletePlantDoc pid uid d = (Inl e, d1)"
  shows "nextOutcome d = Some e \<and> d1 = issue (DeleteMany ''plant'' (plantQuery pid uid)) d"
  using assms
  by (auto simp: deletePlantDoc_def remove_def Let_def plantQuery_def [symmetric]
           split: option.splits)

lemma notes_after_update:
  assumes g: "getNotes pid uid d = (Inr sn, d1)"
    and dn: "deleteNotes sn d1 = (Inr m, d2)"
    and un: "updateNotes pid m d2 = (Inr u, d3)"
    and ids: "distinct (map doc_id (colls d ''note''))"
  shows "colls d3 ''note'' =
           map (\<lambda>n. if refersTo pid uid n then withoutPlant pid n else n)
             (filter (\<lambda>n. \<not> (refersTo pid uid n \<and> plantIds n = [Str pid])) (colls d ''note''))
         \<and> colls d3 ''plant'' = colls d ''plant''"
proof -
  note G = getNotes_Inr [OF g]
  note D = deleteNotes_Inr [OF dn]
  note U = updateNotes_Inr [OF un]
  let ?M = "filter (refersTo pid uid) (colls d ''note'')"
  have sn: "singlePlantNotes sn = map doc_id (filter (\<lambda>n. length (plantIds n) = 1) ?M)"
    and mn: "m = filter (\<lambda>n. length (plantIds n) \<noteq> 1) ?M"
    using G D by (simp_all add: split_eq)
  have "colls d3 ''note'' =
      map (\<lambda>old. case find (\<lambda>u. doc_id u = doc_id old) (map (withoutPlant pid) m) of
                          Some u \<Rightarrow> u | None \<Rightarrow> old)
        (filter (\<lambda>x. doc_id x \<notin> set (singlePlantNotes sn)) (colls d ''note''))"
    using G D U by simp
  moreover have "colls d3 ''plant'' = colls d ''plant''"
    using G D U by simp
  ultimately show ?thesis
    using cascade_notes [OF ids, of pid uid] by (simp add: sn mn)
qed

text \<open>
  C5. When a task of \<open>deletePlant\<close> fails (reading the notes, deleting the single-plant
  notes, updating the multi-plant notes, deleting the plant), \<open>deletePlant\<close> returns the
  error of that task, which is the error the store gave, and the database is the one the
  failing task left: the last operation issued is the failing one, so no later task ran,
  and the collections are as the completed tasks left them. In particular, when the
  deletion of the plant fails, the notes are already deleted or updated and the plant is
  still there.
\<close>

theorem deletePlant_abort:
  "(getNotes pid uid d = (Inl e, d1) \<longrightarrow>
      deletePlant pid uid d = (Inl e, d1) \<and> nextOutcome d = Some e \<and>
      colls d1 = colls d \<and>
      oplog d1 = oplog d @ [Find ''note'' (notesQuery pid uid)]) \<and>
   (getNotes pid uid d = (Inr sn, d1) \<and> deleteNotes sn d1 = (Inl e, d2) \<longrightarrow>
      deletePlant pid uid d = (Inl e, d2) \<and> nextOutcome d1 = Some e \<and>
      colls d2 = colls d \<and>
      oplog d2 = oplog d1 @
        [DeleteMany ''note'' (emptyQuery\<lparr>q_id_in := Some (singlePlantNotes sn)\<rparr>)]) \<and>
   (getNotes pid uid d = (Inr sn, d1) \<and> deleteNotes sn d1 = (Inr m, d2) \<and>
    updateNotes pid m d2 = (Inl e, d3) \<longrightarrow>
      deletePlant pid uid d = (Inl e, d3) \<and> nextOutcome d2 = Some e \<and>
      colls d3 = colls d2 \<and>
      oplog d3 = oplog d2 @ [UpdateDocs ''note'' (map (withoutPlant pid) m)]) \<and>
   (getNotes pid uid d = (Inr sn, d1) \<and> deleteNotes sn d1 = (Inr m, d2) \<and>
    updateNotes pid m d2 = (Inr u, d3) \<and> deletePlantDoc pid uid d3 = (Inl e, d4) \<longrightarrow>
      deletePlant pid uid d = (Inl e, d4) \<and> nextOutcome d3 = Some e \<and>
      colls d4 = colls d3 \<and>
      oplog d4 = oplog d3 @ [DeleteMany ''plant'' (plantQuery pid uid)] \<and>
      (distinct (map doc_id (colls d ''note'')) \<longrightarrow>
         colls d4 ''note'' =
           map (\<lambda>n. if refersTo pid uid n then withoutPlant pid n else n)
             (filter (\<lambda>n. \<not> (refersTo pid uid n \<and> plantIds n = [Str pid])) (colls d ''note'')) \<and>
         colls d4 ''plant'' = colls d ''plant''))"
proof (intro conjI impI)
  assume a: "getNotes pid uid d = (Inl e, d1)"
  show "deletePlant pid uid d = (Inl e, d1)"
    by (simp add: deletePlant_def andThen_def a)
  show "nextOutcome d = Some e" "colls d1 = colls d"
    "oplog d1 = oplog d @ [Find ''note'' (notesQuery pid uid)]"
    using getNotes_Inl [OF a] by simp_all
next
  assume a: "getNotes pid uid d = (Inr sn, d1) \<and> deleteNotes sn d1 = (Inl e, d2)"
  show "deletePlant pid uid d = (Inl e, d2)"
    by (simp add: deletePlant_def andThen_def a)
  show "nextOutcome d1 = Some e" "colls d2 = colls d"
    "oplog d2 = oplog d1 @
        [DeleteMany ''note'' (emptyQuery\<lparr>q_id_in := Some (singlePlantNotes sn)\<rparr>)]"
    using getNotes_Inr [of pid uid d sn d1] deleteNotes_Inl [of sn d1 e d2] a by simp_all
next
  assume a: "getNotes pid uid d = (Inr sn, d1) \<and> deleteNotes sn d1 = (Inr m, d2) \<and>
    updateNotes pid m d2 = (Inl e, d3)"
  show "deletePlant pid uid d = (Inl e, d3)"
    by (simp add: deletePlant_def andThen_def a)
  show "nextOutcome d2 = Some e" "colls d3 = colls d2"
    "oplog d3 = oplog d2 @ [UpdateDocs ''note'' (map (withoutPlant pid) m)]"
    using updateNotes_Inl [of pid m d2 e d3] a by simp_all
next
  assume a: "getNotes pid uid d = (Inr sn, d1) \<and> deleteNotes sn d1 = (Inr m, d2) \<and>
    updateNotes pid m d2 = (Inr u, d3) \<and> deletePlantDoc pid uid d3 = (Inl e, d4)"
  show "deletePlant pid uid d = (Inl e, d4)"
    by (simp add: deletePlant_def andThen_def a)
  show "nextOutcome d3 = Some e" "colls d4 = colls d3"
    "oplog d4 = oplog d3 @ [DeleteMany ''plant'' (plantQuery pid uid)]"
    using deletePlantDoc_Inl [of pid uid d3 e d4] a by simp_all
  assume ids: "distinct (map doc_id (colls d ''note''))"
  have c: "colls d4 = colls d3"
    using deletePlantDoc_Inl [of pid uid d3 e d4] a by simp
  show "colls d4 ''note'' =
           map (\<lambda>n. if refersTo pid uid n then withoutPlant pid n else n)
             (filter (\<lambda>n. \<not> (refersTo pid uid n \<and> plantIds n = [Str pid])) (colls d ''note''))"
    and "colls d4 ''plant'' = colls d ''plant''"
    using notes_after_update [of pid uid d sn d1 m d2 u d3] a ids by (simp_all add: c)
qed

lemmas eval_defs = run_defs scenario_def outage_def noteA_def noteB_def noteC_def
  notesQuery_def plantQuery_def withoutPlant_def

theorem deletePlant_abort_witness:
  "fst (deletePlant ''p1'' ''u1'' (scenario [Some outage])) = Inl outage \<and>
   colls (snd (deletePlant ''p1'' ''u1'' (scenario [Some outage]))) ''note'' =
     [noteA, noteB, noteC] \<and>
   length (oplog (snd (deletePlant ''p1'' ''u1'' (scenario [Some outage])))) = 1 \<and>
   fst (deletePlant ''p1'' ''u1'' (scenario [None, Some outage])) = Inl outage \<and>
   colls (snd (deletePlant ''p1'' ''u1'' (scenario [None, Some outage]))) ''note'' =
     [noteA, noteB, noteC] \<and>
   length (oplog (snd (deletePlant ''p1'' ''u1'' (scenario [None, Some outage])))) = 2 \<and>
   fst (deletePlant ''p1'' ''u1'' (scenario [None, None, Some outage])) = Inl outage \<and>
   colls (snd (deletePlant ''p1'' ''u1'' (scenario [None, None, Some outage]))) ''note'' =
     [noteB, noteC] \<and>
   length (oplog (snd (deletePlant ''p1'' ''u1'' (scenario [None, None, Some outage])))) = 3 \<and>
   fst (deletePlant ''p1'' ''u1'' (scenario [None, None, None, Some outage])) = Inl outage \<and>
   colls (snd (deletePlant ''p1'' ''u1'' (scenario [None, None, None, Some outage]))) ''note'' =
     [noteB\<lparr>plantIds := [Str ''p2'']\<rparr>, noteC] \<and>
   colls (snd (deletePlant ''p1'' ''u1'' (scenario [None, None, None, Some outage]))) ''plant'' =
     [mkPlant (Str ''p1'') (Str ''u1'') ''rose'', mkPlant (Str ''p2'') (Str ''u1'') ''fern''] \<and>
   length (oplog (snd (deletePlant ''p1'' ''u1'' (scenario [None, None, None, Some outage])))) = 4"
proof -
  let ?sn = "\<lparr>singlePlantNotes = [Some (ObjectID ''a'')], multiplePlantNotes = [noteB]\<rparr>"
  let ?s1 = "scenario [Some outage]"
  let ?g1 = "getNotes ''p1'' ''u1'' ?s1"
  have h1: "?g1 = (Inl outage, snd ?g1)"
    by (simp add: eval_defs)
  from deletePlant_abort [where pid = "''p1''" and uid = "''u1''" and d = ?s1 and e = outage
      and ?d1.0 = "snd ?g1"] h1
  have w1: "deletePlant ''p1'' ''u1'' ?s1 = (Inl outage, snd ?g1) \<and>
            colls (snd ?g1) = colls ?s1 \<and>
            oplog (snd ?g1) = oplog ?s1 @ [Find ''note'' (notesQuery ''p1'' ''u1'')]"
    by blast
  let ?s2 = "scenario [None, Some outage]"
  let ?g2 = "getNotes ''p1'' ''u1'' ?s2"
  let ?n2 = "deleteNotes ?sn (snd ?g2)"
  have h2: "?g2 = (Inr ?sn, snd ?g2) \<and> ?n2 = (Inl outage, snd ?n2)"
    by (simp add: eval_defs)
  from deletePlant_abort [where pid = "''p1''" and uid = "''u1''" and d = ?s2 and e = outage
      and sn = ?sn and ?d1.0 = "snd ?g2" and ?d2.0 = "snd ?n2"] h2
  have w2: "deletePlant ''p1'' ''u1'' ?s2 = (Inl outage, snd ?n2) \<and>
            colls (snd ?n2) = colls ?s2 \<and>
            oplog (snd ?n2) = oplog (snd ?g2) @
              [DeleteMany ''note'' (emptyQuery\<lparr>q_id_in := Some (singlePlantNotes ?sn)\<rparr>)]"
    by blast
  let ?s3 = "scenario [None, None, Some outage]"
  let ?g3 = "getNotes ''p1'' ''u1'' ?s3"
  let ?n3 = "deleteNotes ?sn (snd ?g3)"
  let ?u3 = "updateNotes ''p1'' [noteB] (snd ?n3)"
  have h3: "?g3 = (Inr ?sn, snd ?g3) \<and> ?n3 = (Inr [noteB], snd ?n3) \<and>
            ?u3 = (Inl outage, snd ?u3)"
    by (simp add: eval_defs)
  from deletePlant_abort [where pid = "''p1''" and uid = "''u1''" and d = ?s3 and e = outage
      and sn = ?sn and ?d1.0 = "snd ?g3" and ?d2.0 = "snd ?n3" and m = "[noteB]"
      and ?d3.0 = "snd ?u3"] h3
  have w3: "deletePlant ''p1'' ''u1'' ?s3 = (Inl outage, snd ?u3) \<and>
            colls (snd ?u3) = colls (snd ?n3) \<and>
            oplog (snd ?u3) = oplog (snd ?n3) @
              [UpdateDocs ''note'' (map (withoutPlant ''p1'') [noteB])]"
    by blast
  let ?s4 = "scenario [None, None, None, Some outage]"
  let ?g4 = "getNotes ''p1'' ''u1'' ?s4"
  let ?n4 = "deleteNotes ?sn (snd ?g4)"
  let ?u4 = "updateNotes ''p1'' [noteB] (snd ?n4)"
  let ?p4 = "deletePlantDoc ''p1'' ''u1'' (snd ?u4)"
  have h4: "?g4 = (Inr ?sn, snd ?g4) \<and> ?n4 = (Inr [noteB], snd ?n4) \<and>
            ?u4 = (Inr (), snd ?u4) \<and> ?p4 = (Inl outage, snd ?p4)"
    by (simp add: eval_defs)
  have ids: "distinct (map doc_id (colls ?s4 ''note''))"
    by (simp add: eval_defs)
  from deletePlant_abort [where pid = "''p1''" and uid = "''u1''" and d = ?s4 and e = outage
      and sn = ?sn and ?d1.0 = "snd ?g4" and ?d2.0 = "snd ?n4" and m = "[noteB]"
      and ?d3.0 = "snd ?u4" and u = "()" and ?d4.0 = "snd ?p4"] h4 ids
  have w4: "deletePlant ''p1'' ''u1'' ?s4 = (Inl outage, snd ?p4) \<and>
            oplog (snd ?p4) = oplog (snd ?u4) @
              [DeleteMany ''plant'' (plantQuery ''p1'' ''u1'')] \<and>
            colls (snd ?p4) ''note'' =
              map (\<lambda>n. if refersTo ''p1'' ''u1'' n then withoutPlant ''p1'' n else n)
                (filter (\<lambda>n. \<not> (refersTo ''p1'' ''u1'' n \<and> plantIds n = [Str ''p1'']))
                   (colls ?s4 ''note'')) \<and>
            colls (snd ?p4) ''plant'' = colls ?s4 ''plant''"
    by blast
  have l3: "colls (snd ?n3) ''note'' = [noteB, noteC]" "length (oplog (snd ?n3)) = 2"
    by (simp_all add: eval_defs)
  have l2: "length (oplog (snd ?g2)) = 1"
    by (simp add: eval_defs)
  have l4: "length (oplog (snd ?u4)) = 3"
    by (simp add: eval_defs)
  have c4: "map (\<lambda>n. if refersTo ''p1'' ''u1'' n then withoutPlant ''p1'' n else n)
                (filter (\<lambda>n. \<not> (refersTo ''p1'' ''u1'' n \<and> plantIds n = [Str ''p1'']))
                   (colls ?s4 ''note'')) = [noteB\<lparr>plantIds := [Str ''p2'']\<rparr>, noteC]"
    by (simp add: eval_defs refersTo_def)
  have s: "colls ?s1 ''note'' = [noteA, noteB, noteC]" "oplog ?s1 = []"
    "colls ?s2 ''note'' = [noteA, noteB, noteC]"
    "colls ?s4 ''plant'' =
       [mkPlant (Str ''p1'') (Str ''u1'') ''rose'', mkPlant (Str ''p2'') (Str ''u1'') ''fern'']"
    by (simp_all add: scenario_def mkStore_def noteA_def noteB_def noteC_def)
  have r1: "fst (deletePlant ''p1'' ''u1'' ?s1) = Inl outage \<and>
     colls (snd (deletePlant ''p1'' ''u1'' ?s1)) ''note'' = [noteA, noteB, noteC] \<and>
     length (oplog (snd (deletePlant ''p1'' ''u1'' ?s1))) = 1"
    using w1 by (simp add: s)
  have r2: "fst (deletePlant ''p1'' ''u1'' ?s2) = Inl outage \<and>
     colls (snd (deletePlant ''p1'' ''u1'' ?s2)) ''note'' = [noteA, noteB, noteC] \<and>
     length (oplog (snd (deletePlant ''p1'' ''u1'' ?s2))) = 2"
    using w2 by (simp add: s l2)
  have r3: "fst (deletePlant ''p1'' ''u1'' ?s3) = Inl outage \<and>
     colls (snd (deletePlant ''p1'' ''u1'' ?s3)) ''note'' = [noteB, noteC] \<and>
     length (oplog (snd (deletePlant ''p1'' ''u1'' ?s3))) = 3"
    using w3 by (simp add: l3)
  have r4: "fst (deletePlant ''p1'' ''u1'' ?s4) = Inl outage \<and>
     colls (snd (deletePlant ''p1'' ''u1'' ?s4)) ''note'' =
       [noteB\<lparr>plantIds := [Str ''p2'']\<rparr>, noteC] \<and>
     colls (snd (deletePlant ''p1'' ''u1'' ?s4)) ''plant'' =
       [mkPlant (Str ''p1'') (Str ''u1'') ''rose'', mkPlant (Str ''p2'') (Str ''u1'') ''fern''] \<and>
     length (oplog (snd (deletePlant ''p1'' ''u1'' ?s4))) = 4"
    using w4 c4 by (simp add: l4 s)
  show ?thesis
    using r1 r2 r3 r4 by blast
qed

section \<open>The code at the inputs where it departs from the specification\<close>

lemmas facade_defs = findOrCreateFacebookUser_def createPlant_def createNote_def
  getPlantById_def getPlantsByUserId_def deleteAllPlantsByUserId_def convertIdToString_def
  run_defs

text \<open>
  C2. The code at a note whose \<open>plantIds\<close> names the deleted plant twice: the note has two
  entries, so it is put among the notes to update, the filter takes both entries out, and
  the note is stored with an empty \<open>plantIds\<close> after a \<open>deletePlant\<close> that reports no
  error.
\<close>

theorem deletePlant_persists_empty_plantIds:
  "colls doubled ''note'' =
     [mkNote (ObjectID ''d'') (Str ''u1'') [Str ''p1'', Str ''p1''] ''D''] \<and>
   fst (deletePlant ''p1'' ''u1'' doubled) = Inr 0 \<and>
   colls (snd (deletePlant ''p1'' ''u1'' doubled)) ''note'' =
     [mkNote (ObjectID ''d'') (Str ''u1'') [] ''D''] \<and>
   fst (deletePlant ''p1'' ''u1'' doubledWithPlant) = Inr 1 \<and>
   colls (snd (deletePlant ''p1'' ''u1'' doubledWithPlant)) ''plant'' = [] \<and>
   colls (snd (deletePlant ''p1'' ''u1'' doubledWithPlant)) ''note'' =
     [mkNote (ObjectID ''d'') (Str ''u1'') [] ''D'']"
  by (simp add: doubled_def doubledWithPlant_def run_defs)

text \<open>
  C4. The code at a plant stored with \<open>_id\<close> and \<open>userId\<close> in native form:
  \<open>deletePlant\<close> with the plant's external identifiers issues the read of the notes and
  the deletion of the plant with the identifiers in string form, so not every operation
  it issues is in native form; the deletion matches nothing and the plant is still stored.
\<close>

theorem deletePlant_queries_in_string_form:
  "colls planted ''plant'' = [mkPlant (ObjectID ''p1'') (ObjectID ''u1'') ''rose''] \<and>
   oplog (snd (deletePlant ''p1'' ''u1'' planted)) =
     oplog planted @
     [Find ''note'' (emptyQuery\<lparr>q_plantIds := Some (Str ''p1''), q_userId := Some (Str ''u1'')\<rparr>),
      DeleteMany ''plant'' (emptyQuery\<lparr>q_id := Some (Str ''p1''), q_userId := Some (Str ''u1'')\<rparr>)] \<and>
   \<not> list_all nativeOp (oplog (snd (deletePlant ''p1'' ''u1'' planted))) \<and>
   fst (deletePlant ''p1'' ''u1'' planted) = Inr 0 \<and>
   colls (snd (deletePlant ''p1'' ''u1'' planted)) ''plant'' =
     [mkPlant (ObjectID ''p1'') (ObjectID ''u1'') ''rose'']"
  by (simp add: planted_def run_defs nativeQuery_def nativeDoc_def nativeValue_def)

text \<open>
  C1. The code at a plant stored in native form with two notes on it: \<open>deletePlant\<close> with
  the plant's and the owner's external identifiers reports no error, deletes the note that
  referred to the plant alone and takes the plant out of the other note, but its deletion
  of the plant asks for string identifiers, matches nothing, and the plant is still stored.
\<close>

theorem deletePlant_leaves_stored_plant:
  "colls nursery ''plant'' = [mkPlant (ObjectID ''p1'') (ObjectID ''u1'') ''rose''] \<and>
   colls nursery ''note'' =
     [mkNote (ObjectID ''a'') (Str ''u1'') [Str ''p1''] ''A'',
      mkNote (ObjectID ''b'') (Str ''u1'') [Str ''p1'', Str ''p2''] ''B''] \<and>
   fst (deletePlant ''p1'' ''u1'' nursery) = Inr 0 \<and>
   colls (snd (deletePlant ''p1'' ''u1'' nursery)) ''note'' =
     [mkNote (ObjectID ''b'') (Str ''u1'') [Str ''p2''] ''B''] \<and>
   colls (snd (deletePlant ''p1'' ''u1'' nursery)) ''plant'' =
     [mkPlant (ObjectID ''p1'') (ObjectID ''u1'') ''rose'']"
  by (simp add: nursery_def run_defs)



text \<open>
  C6. The code at a stored plant with a note on it: the query for the plant carries the
  object of \<open>new ObjectID\<close>, which is no identifier, so the read matches nothing and
  the only operation issued is this read. No plant and no notes are handed back.
\<close>

theorem getPlantById_misses_stored_plant:
  "filter (\<lambda>x. doc_id x = Some (ObjectID ''p1'')) (colls garden ''plant'') =
     [mkPlant (ObjectID ''p1'') (ObjectID ''u1'') ''rose''] \<and>
   filter (\<lambda>n. ObjectID ''p1'' \<in> set (plantIds n)) (colls garden ''note'') =
     [mkNote (ObjectID ''a'') (ObjectID ''u1'') [ObjectID ''p1''] ''A''] \<and>
   (\<forall>x. fst (getPlantById ''p1'' garden) \<noteq> Inr (Some x)) \<and>
   oplog (snd (getPlantById ''p1'' garden)) =
     [Find ''plant'' (emptyQuery\<lparr>q_id := Some Promise\<rparr>)]"
  by (simp add: garden_def facade_defs)

text \<open>
  C9. The code at a store with exactly one user of the given identifier, who owns a plant:
  the query for the user carries the object of \<open>new ObjectID\<close>, which is no identifier, so
  the read matches no user and the result is absent instead of the list of the plants.
\<close>

theorem getPlantsByUserId_absent_for_stored_user:
  "filter (\<lambda>x. doc_id x = Some (ObjectID ''u1'')) (colls garden ''user'') =
     [mkUser (ObjectID ''u1'') ''fb7'' ''Ann''] \<and>
   filter (\<lambda>p. userId p = Some (ObjectID ''u1'')) (colls garden ''plant'') =
     [mkPlant (ObjectID ''p1'') (ObjectID ''u1'') ''rose''] \<and>
   fst (getPlantsByUserId ''u1'' garden) = Inr None \<and>
   oplog (snd (getPlantsByUserId ''u1'' garden)) =
     [Find ''user'' (emptyQuery\<lparr>q_id := Some Promise\<rparr>)]"
  by (simp add: garden_def facade_defs)

text \<open>
  C10. The code at a store with a plant of user \<open>u1\<close> stored in native form, and at the
  store \<open>createPlant\<close> itself fills: \<open>deleteAllPlantsByUserId\<close> asks for the caller's
  string, which the \<open>userId\<close> of no such plant equals, so it removes nothing and the
  user's plant is still stored. Notes and users are as they were.
\<close>

theorem deleteAllPlantsByUserId_removes_no_stored_plant:
  "fst (deleteAllPlantsByUserId ''u1'' garden) = Inr 0 \<and>
   colls (snd (deleteAllPlantsByUserId ''u1'' garden)) ''plant'' =
     [mkPlant (ObjectID ''p1'') (ObjectID ''u1'') ''rose'',
      mkPlant (ObjectID ''p2'') (ObjectID ''u2'') ''fern''] \<and>
   colls (snd (deleteAllPlantsByUserId ''u1'' garden)) ''note'' = colls garden ''note'' \<and>
   colls (snd (deleteAllPlantsByUserId ''u1'' garden)) ''user'' = colls garden ''user'' \<and>
   oplog (snd (deleteAllPlantsByUserId ''u1'' garden)) =
     [DeleteMany ''plant'' (emptyQuery\<lparr>q_userId := Some (Str ''u1'')\<rparr>)] \<and>
   colls sown ''plant'' = [mkPlant Promise Promise ''rose''] \<and>
   fst (deleteAllPlantsByUserId ''u1'' sown) = Inr 0 \<and>
   colls (snd (deleteAllPlantsByUserId ''u1'' sown)) ''plant'' =
     [mkPlant Promise Promise ''rose'']"
  by (simp add: garden_def sown_def emptyStore_def facade_defs)

end
